theory Spec2Isabelle
  imports
    Complex_Main
    "HOL-Library.Char_ord"
    "HOL-Library.List_Lexorder"
    "HOL-Library.Product_Lexorder"
begin

section \<open>The pivot and bucketing engine (\<open>pivot_engine.py\<close>)\<close>

text \<open>
  The engine is a Python class over pandas. Its own control flow (which bucketing is
  chosen, which exceptions are caught, which metric branch runs, how two pivots are
  aligned and divided) is translated line by line. The pandas and Python primitives it
  calls (\<open>float\<close>, \<open>str.split\<close>, \<open>str.strip\<close>, \<open>pd.cut\<close>, \<open>pd.qcut\<close>,
  \<open>pd.crosstab\<close>, \<open>round\<close>, \<open>fillna\<close>, \<open>Index.union\<close>, \<open>reindex\<close>, frame
  arithmetic, \<open>replace\<close>) are given as executable functions that follow the documented
  behaviour of pandas 2.x.

  Conventions of the embedding:
  \<^item> a 64-bit float is a rational or one of the three IEEE specials (type \<open>fl\<close>);
    rounding to 53 bits is not modelled, the specials and their arithmetic are;
  \<^item> a scalar of the input table is a finite number, a string, a boolean, a timestamp
    (nanoseconds since the epoch) or the missing marker \<open>NaN\<close>; a value of a
    categorical column produced by \<open>pd.cut\<close>/\<open>pd.qcut\<close> is its category code with
    its label;
  \<^item> a Series is the list of its values, in row order (the row index is positional);
  \<^item> a raised exception is \<open>Inl\<close> of its class.
\<close>

subsection \<open>Scalars, errors, series\<close>

datatype fl = Fin rat | PInf | NInf | NaNf

datatype label = Name string | Interval fl fl

datatype val = Num rat | Str string | Bool bool | Time int | Cat nat label | NaN

datatype error = KeyError | ValueError | TypeError | UnboundLocalError

type_synonym series = "val list"

definition isna :: "val \<Rightarrow> bool" where
  "isna v = (v = NaN)"

text \<open>IEEE comparison: every comparison with a NaN is false.\<close>

fun fl_less :: "fl \<Rightarrow> fl \<Rightarrow> bool" where
  "fl_less NaNf _ = False"
| "fl_less _ NaNf = False"
| "fl_less (Fin a) (Fin b) = (a < b)"
| "fl_less (Fin a) PInf = True"
| "fl_less (Fin a) NInf = False"
| "fl_less PInf _ = False"
| "fl_less NInf NInf = False"
| "fl_less NInf _ = True"

fun fl_eq :: "fl \<Rightarrow> fl \<Rightarrow> bool" where
  "fl_eq NaNf _ = False"
| "fl_eq _ NaNf = False"
| "fl_eq a b = (a = b)"

definition fl_le :: "fl \<Rightarrow> fl \<Rightarrow> bool" where
  "fl_le a b = (fl_less a b \<or> fl_eq a b)"

subsection \<open>Python string primitives\<close>

definition is_space :: "char \<Rightarrow> bool" where
  "is_space c = (c \<in> set [CHR '' '', CHR 0x09, CHR 0x0A, CHR 0x0B, CHR 0x0C, CHR 0x0D,
                            CHR 0x1C, CHR 0x1D, CHR 0x1E, CHR 0x1F])"

definition strip :: "string \<Rightarrow> string" where
  "strip s = rev (dropWhile is_space (rev (dropWhile is_space s)))"

text \<open>\<open>s.split(',')\<close>: the pieces between the commas; always at least one piece.\<close>

fun split_comma :: "string \<Rightarrow> string list" where
  "split_comma [] = [[]]"
| "split_comma (c # cs) =
     (if c = CHR '','' then [] # split_comma cs
      else (case split_comma cs of
              [] \<Rightarrow> [[c]]
            | t # ts \<Rightarrow> (c # t) # ts))"

definition is_digit :: "char \<Rightarrow> bool" where
  "is_digit c = (c \<in> set ''0123456789'')"

definition digit_val :: "char \<Rightarrow> nat" where
  "digit_val c = of_char c - of_char (CHR ''0'')"

text \<open>A digit part of a Python float literal: digits, single underscores between digits.\<close>

fun valid_digitpart :: "string \<Rightarrow> bool" where
  "valid_digitpart [] = False"
| "valid_digitpart [c] = is_digit c"
| "valid_digitpart (c # d # cs) =
     (is_digit c \<and> (if d = CHR ''_'' then valid_digitpart cs else valid_digitpart (d # cs)))"

definition digits_val :: "string \<Rightarrow> nat" where
  "digits_val s = foldl (\<lambda>n c. 10 * n + digit_val c) 0 (filter is_digit s)"

definition lower :: "char \<Rightarrow> char" where
  "lower c = (if of_char c \<ge> (65::nat) \<and> of_char c \<le> (90::nat)
              then char_of (of_char c + (32::nat)) else c)"

definition pow10 :: "int \<Rightarrow> rat" where
  "pow10 e = (if e \<ge> 0 then 10 ^ nat e else 1 / 10 ^ nat (- e))"

text \<open>
  An unsigned decimal literal \<open>digits [. digits] [e [sign] digits]\<close> or
  \<open>. digits [e [sign] digits]\<close>; \<open>None\<close> when the text is not one.
\<close>

definition float_literal :: "string \<Rightarrow> rat option" where
  "float_literal s =
     (let is_e = (\<lambda>c. c = CHR ''e'' \<or> c = CHR ''E'');
          m = takeWhile (\<lambda>c. \<not> is_e c) s;
          e = dropWhile (\<lambda>c. \<not> is_e c) s;
          ex = (case e of
                  [] \<Rightarrow> Some 0
                | _ # r \<Rightarrow>
                   (case r of
                      [] \<Rightarrow> None
                    | sg # ds \<Rightarrow>
                       if sg = CHR ''-'' then
                         (if valid_digitpart ds then Some (- int (digits_val ds)) else None)
                       else if sg = CHR ''+'' then
                         (if valid_digitpart ds then Some (int (digits_val ds)) else None)
                       else (if valid_digitpart r then Some (int (digits_val r)) else None)));
          ip = takeWhile (\<lambda>c. c \<noteq> CHR ''.'') m;
          rest = dropWhile (\<lambda>c. c \<noteq> CHR ''.'') m;
          fp = (case rest of [] \<Rightarrow> [] | _ # f \<Rightarrow> f);
          ok = (case rest of
                  [] \<Rightarrow> valid_digitpart ip
                | _ # f \<Rightarrow> (ip = [] \<or> valid_digitpart ip) \<and> (f = [] \<or> valid_digitpart f)
                            \<and> \<not> (ip = [] \<and> f = []))
      in case ex of
           None \<Rightarrow> None
         | Some x \<Rightarrow>
            if ok then
              Some ((of_nat (digits_val ip)
                     + of_nat (digits_val fp) / 10 ^ length (filter is_digit fp)) * pow10 x)
            else None)"

text \<open>
  Python's \<open>float(s)\<close> on a string: surrounding whitespace is ignored, an optional sign,
  then \<open>inf\<close>, \<open>infinity\<close> or \<open>nan\<close> in any case, or a decimal literal. Anything else
  raises \<open>ValueError\<close>.
\<close>

definition pyfloat :: "string \<Rightarrow> error + fl" where
  "pyfloat s =
     (let t = strip s;
          neg = (t \<noteq> [] \<and> hd t = CHR ''-'');
          u = (if t \<noteq> [] \<and> (hd t = CHR ''-'' \<or> hd t = CHR ''+'') then tl t else t);
          w = map lower u
      in if w = ''inf'' \<or> w = ''infinity'' then Inr (if neg then NInf else PInf)
         else if w = ''nan'' then Inr NaNf
         else (case float_literal u of
                 None \<Rightarrow> Inl ValueError
               | Some r \<Rightarrow> Inr (Fin (if neg then - r else r))))"

text \<open>\<open>[float(x) for x in ranges]\<close>: stops at the first token that does not parse.\<close>

fun floats :: "string list \<Rightarrow> error + fl list" where
  "floats [] = Inr []"
| "floats (x # xs) =
     (case pyfloat x of
        Inl e \<Rightarrow> Inl e
      | Inr f \<Rightarrow> (case floats xs of Inl e \<Rightarrow> Inl e | Inr fs \<Rightarrow> Inr (f # fs)))"

subsection \<open>\<open>pd.cut\<close> and \<open>pd.qcut\<close>\<close>

text \<open>
  The numeric view of a value that \<open>pd.cut\<close> compares with numeric bin edges: booleans
  count as 0 and 1, a missing value stays missing, a timestamp column is rejected with
  \<open>ValueError\<close> (bins must be of datetime64 dtype), a string or categorical column with
  \<open>TypeError\<close> (the comparison inside \<open>searchsorted\<close>).
\<close>

fun cut_num :: "val \<Rightarrow> error + rat option" where
  "cut_num (Num r) = Inr (Some r)"
| "cut_num (Bool b) = Inr (Some (if b then 1 else 0))"
| "cut_num NaN = Inr None"
| "cut_num (Time t) = Inl ValueError"
| "cut_num (Str s) = Inl TypeError"
| "cut_num (Cat i l) = Inl TypeError"

text \<open>\<open>pd.qcut\<close> takes its edges from the data, so timestamps are binned as numbers.\<close>

fun qcut_num :: "val \<Rightarrow> error + rat option" where
  "qcut_num (Num r) = Inr (Some r)"
| "qcut_num (Bool b) = Inr (Some (if b then 1 else 0))"
| "qcut_num NaN = Inr None"
| "qcut_num (Time t) = Inr (Some (of_int t))"
| "qcut_num (Str s) = Inl TypeError"
| "qcut_num (Cat i l) = Inl TypeError"

fun coerce_all :: "(val \<Rightarrow> error + rat option) \<Rightarrow> series \<Rightarrow> error + rat option list" where
  "coerce_all f [] = Inr []"
| "coerce_all f (v # vs) =
     (case f v of
        Inl e \<Rightarrow> Inl e
      | Inr x \<Rightarrow> (case coerce_all f vs of Inl e \<Rightarrow> Inl e | Inr xs \<Rightarrow> Inr (x # xs)))"

fun is_monotonic_increasing :: "fl list \<Rightarrow> bool" where
  "is_monotonic_increasing (a # b # bs) = (fl_le a b \<and> is_monotonic_increasing (b # bs))"
| "is_monotonic_increasing _ = True"

text \<open>\<open>algos.unique\<close>: the distinct elements, each at its first position.\<close>

definition unique :: "'a list \<Rightarrow> 'a list" where
  "unique xs = rev (remdups (rev xs))"

text \<open>\<open>bins.searchsorted(x, side='left')\<close> on ascending edges: how many edges lie below x.\<close>

definition searchsorted_left :: "fl list \<Rightarrow> rat \<Rightarrow> nat" where
  "searchsorted_left bins x = length (takeWhile (\<lambda>b. fl_less b (Fin x)) bins)"

fun fl_minus_rat :: "fl \<Rightarrow> rat \<Rightarrow> fl" where
  "fl_minus_rat (Fin a) d = Fin (a - d)"
| "fl_minus_rat a d = a"

text \<open>
  \<open>_format_labels\<close> with \<open>labels=None\<close>: the right-closed intervals between consecutive
  edges; with \<open>include_lowest\<close> the left edge of the first interval is lowered by
  \<open>10 ** -precision\<close> (precision 3). The rounding of the displayed edges to that
  precision is not modelled: labels carry the exact edges.
\<close>

fun intervals :: "fl list \<Rightarrow> label list" where
  "intervals (a # b # bs) = Interval a b # intervals (b # bs)"
| "intervals _ = []"

definition format_labels :: "fl list \<Rightarrow> bool \<Rightarrow> label list" where
  "format_labels bins include_lowest =
     (case bins of
        [] \<Rightarrow> []
      | b # bs \<Rightarrow> intervals ((if include_lowest then fl_minus_rat b (1 / 1000) else b) # bs))"

definition bin_id :: "fl list \<Rightarrow> bool \<Rightarrow> rat option \<Rightarrow> nat" where
  "bin_id bins include_lowest x =
     (case x of
        None \<Rightarrow> 0
      | Some r \<Rightarrow>
         let i = (if include_lowest \<and> bins \<noteq> [] \<and> hd bins = Fin r then 1
                  else searchsorted_left bins r)
         in if i = length bins then 0 else i)"

definition take_label :: "label list \<Rightarrow> nat \<Rightarrow> val" where
  "take_label labs i = (if i = 0 \<or> i > length labs then NaN else Cat (i - 1) (labs ! (i - 1)))"

text \<open>
  \<open>_bins_to_cuts\<close>: duplicate edges raise (or are dropped), every value gets the number
  of its bin (0 for a missing value and for a value outside the edges), labels are
  checked, and the result is the categorical column of labels.
\<close>

definition bins_to_cuts ::
  "(val \<Rightarrow> error + rat option) \<Rightarrow> series \<Rightarrow> fl list \<Rightarrow> string list option \<Rightarrow> bool \<Rightarrow> bool
     \<Rightarrow> error + series" where
  "bins_to_cuts num x bins labels include_lowest drop_dup =
     (let dup = (\<not> distinct bins \<and> length bins \<noteq> 2)
      in if dup \<and> \<not> drop_dup then Inl ValueError
         else
           let bins' = (if dup then unique bins else bins)
           in case coerce_all num x of
                Inl e \<Rightarrow> Inl e
              | Inr xs \<Rightarrow>
                 let ids = map (bin_id bins' include_lowest) xs
                 in (case labels of
                       None \<Rightarrow> Inr (map (take_label (format_labels bins' include_lowest)) ids)
                     | Some ls \<Rightarrow>
                        if \<not> distinct ls then Inl ValueError
                        else if length ls \<noteq> length bins' - 1 then Inl ValueError
                        else Inr (map (take_label (map Name ls)) ids)))"

text \<open>\<open>pd.cut(x, bins=[...], labels=..., include_lowest=...)\<close> with a list of edges.\<close>

definition cut :: "series \<Rightarrow> fl list \<Rightarrow> string list option \<Rightarrow> bool \<Rightarrow> error + series" where
  "cut x bins labels include_lowest =
     (if \<not> is_monotonic_increasing bins then Inl ValueError
      else bins_to_cuts cut_num x bins labels include_lowest False)"

fun somes :: "'a option list \<Rightarrow> 'a list" where
  "somes [] = []"
| "somes (None # xs) = somes xs"
| "somes (Some x # xs) = x # somes xs"

text \<open>\<open>Series.quantile(p)\<close> with linear interpolation, on the sorted non-missing values.\<close>

definition quantile :: "rat list \<Rightarrow> rat \<Rightarrow> fl" where
  "quantile vs p =
     (if vs = [] then NaNf
      else let pos = p * of_nat (length vs - 1);
               lo = nat \<lfloor>pos\<rfloor>;
               fr = pos - of_nat lo
           in Fin (if lo + 1 < length vs then vs ! lo + (vs ! (lo + 1) - vs ! lo) * fr
                   else vs ! (length vs - 1)))"

text \<open>
  \<open>pd.qcut(x, q=n, labels=..., duplicates=...)\<close>: the edges are the quantiles
  \<open>0, 1/n, ..., 1\<close> of the data, the lowest edge is included.
\<close>

definition qcut :: "series \<Rightarrow> nat \<Rightarrow> string list option \<Rightarrow> bool \<Rightarrow> error + series" where
  "qcut x q labels drop_dup =
     (case coerce_all qcut_num x of
        Inl e \<Rightarrow> Inl e
      | Inr xs \<Rightarrow>
         let vs = sort (somes xs);
             bins = map (\<lambda>i. quantile vs (of_nat i / of_nat q)) [0..<q + 1]
         in bins_to_cuts qcut_num x bins labels True drop_dup)"

subsection \<open>Calendar periods of a timestamp\<close>

text \<open>
  The four \<open>signup_date\<close> strategies label a timestamp by its calendar year, month,
  quarter or week (Monday to Sunday). A timestamp is a count of nanoseconds since
  1970-01-01, its civil date is computed from the day number. \<open>pd.to_datetime\<close> keeps a
  timestamp, turns a missing value into \<open>NaT\<close> and reads a number as nanoseconds; the
  date parser that it applies to strings is outside this development, a string column
  is reported as the parser's \<open>ValueError\<close>.
\<close>

definition civil_from_days :: "int \<Rightarrow> int \<times> int \<times> int" where
  "civil_from_days z =
     (let z' = z + 719468;
          era = z' div 146097;
          doe = z' - era * 146097;
          yoe = (doe - doe div 1460 + doe div 36524 - doe div 146096) div 365;
          y = yoe + era * 400;
          doy = doe - (365 * yoe + yoe div 4 - yoe div 100);
          mp = (5 * doy + 2) div 153;
          d = doy - (153 * mp + 2) div 5 + 1;
          m = (if mp < 10 then mp + 3 else mp - 9)
      in (if m \<le> 2 then y + 1 else y, m, d))"

definition date_of :: "int \<Rightarrow> int \<times> int \<times> int" where
  "date_of t = civil_from_days (t div 86400000000000)"

fun show_nat :: "nat \<Rightarrow> string" where
  "show_nat n =
     (if n < 10 then [char_of (n + 48)]
      else show_nat (n div 10) @ [char_of (n mod 10 + 48)])"

definition pad2 :: "int \<Rightarrow> string" where
  "pad2 n = (if n < 10 then CHR ''0'' # show_nat (nat n) else show_nat (nat n))"

definition show_date :: "int \<times> int \<times> int \<Rightarrow> string" where
  "show_date ymd = (case ymd of (y, m, d) \<Rightarrow> show_nat (nat y) @ ''-'' @ pad2 m @ ''-'' @ pad2 d)"

fun to_datetime1 :: "val \<Rightarrow> error + int option" where
  "to_datetime1 (Time t) = Inr (Some t)"
| "to_datetime1 NaN = Inr None"
| "to_datetime1 (Num r) = Inr (Some \<lfloor>r\<rfloor>)"
| "to_datetime1 (Str s) = Inl ValueError"
| "to_datetime1 (Bool b) = Inl TypeError"
| "to_datetime1 (Cat i l) = Inl TypeError"

fun to_datetime :: "series \<Rightarrow> error + int option list" where
  "to_datetime [] = Inr []"
| "to_datetime (v # vs) =
     (case to_datetime1 v of
        Inl e \<Rightarrow> Inl e
      | Inr x \<Rightarrow> (case to_datetime vs of Inl e \<Rightarrow> Inl e | Inr xs \<Rightarrow> Inr (x # xs)))"

text \<open>
  \<open>.dt.year.astype(str)\<close>: with a \<open>NaT\<close> in the column the years are floats, printed
  with \<open>.0\<close>, and the missing year prints as \<open>nan\<close>.
\<close>

definition by_year :: "series \<Rightarrow> error + series" where
  "by_year x =
     (case to_datetime x of
        Inl e \<Rightarrow> Inl e
      | Inr ts \<Rightarrow>
         Inr (map (\<lambda>t. case t of
                          None \<Rightarrow> Str ''nan''
                        | Some n \<Rightarrow>
                           Str (show_nat (nat (fst (date_of n)))
                                @ (if None \<in> set ts then ''.0'' else []))) ts))"

text \<open>\<open>.dt.to_period(freq).astype(str)\<close>: \<open>NaT\<close> prints as \<open>NaT\<close>.\<close>

definition by_period :: "(int \<Rightarrow> string) \<Rightarrow> series \<Rightarrow> error + series" where
  "by_period fmt x =
     (case to_datetime x of
        Inl e \<Rightarrow> Inl e
      | Inr ts \<Rightarrow> Inr (map (\<lambda>t. case t of None \<Rightarrow> Str ''NaT'' | Some n \<Rightarrow> Str (fmt n)) ts))"

definition month_str :: "int \<Rightarrow> string" where
  "month_str t = (case date_of t of (y, m, d) \<Rightarrow> show_nat (nat y) @ ''-'' @ pad2 m)"

definition quarter_str :: "int \<Rightarrow> string" where
  "quarter_str t =
     (case date_of t of (y, m, d) \<Rightarrow> show_nat (nat y) @ ''Q'' @ show_nat (nat ((m - 1) div 3 + 1)))"

definition week_str :: "int \<Rightarrow> string" where
  "week_str t =
     (let day = t div 86400000000000;
          monday = day - (day + 3) mod 7
      in show_date (civil_from_days monday) @ ''/'' @ show_date (civil_from_days (monday + 6)))"

subsection \<open>The engine and its registry (\<open>__init__\<close>)\<close>

type_synonym bucket_fn = "series \<Rightarrow> error + series"

record PivotEngine =
  bucket_definitions :: "(string \<times> (string \<times> bucket_fn) list) list"

definition cut_labels :: "fl list \<Rightarrow> string list \<Rightarrow> bucket_fn" where
  "cut_labels bins labels = (\<lambda>x. cut x bins (Some labels) False)"

definition quartiles :: bucket_fn where
  "quartiles = (\<lambda>x. qcut x 4 (Some [''Q1 (Bottom 25%)'', ''Q2'', ''Q3'', ''Q4 (Top 25%)'']) False)"

definition init :: PivotEngine where
  "init = \<lparr> bucket_definitions = [
     (''age'', [
        (''Young/Old'', cut_labels [Fin 0, Fin 35, Fin 100] [''Young (18-35)'', ''Mature (35+)'']),
        (''Three Groups'', cut_labels [Fin 0, Fin 25, Fin 45, Fin 100] [''18-25'', ''26-45'', ''46+'']),
        (''Fine Grained'', cut_labels [Fin 0, Fin 20, Fin 25, Fin 35, Fin 50, Fin 100]
           [''18-20'', ''21-25'', ''26-35'', ''36-50'', ''50+''])]),
     (''days_since_signup'', [
        (''New/Established'', cut_labels [Fin 0, Fin 90, Fin 10000]
           [''New (0-90 days)'', ''Established (90+ days)'']),
        (''Quarterly'', cut_labels [Fin 0, Fin 90, Fin 180, Fin 365, Fin 10000]
           [''0-3 months'', ''3-6 months'', ''6-12 months'', ''1+ years'']),
        (''Monthly'', cut_labels [Fin 0, Fin 30, Fin 60, Fin 90, Fin 180, Fin 365, Fin 10000]
           [''0-1 month'', ''1-2 months'', ''2-3 months'', ''3-6 months'', ''6-12 months'',
            ''1+ years''])]),
     (''days_since_last_purchase'', [
        (''Recent/Lapsed'', cut_labels [Fin 0, Fin 30, Fin 10000]
           [''Recent (0-30 days)'', ''Lapsed (30+ days)'']),
        (''Recency Groups'', cut_labels [Fin 0, Fin 7, Fin 30, Fin 90, Fin 10000]
           [''0-7 days'', ''8-30 days'', ''31-90 days'', ''90+ days'']),
        (''Weekly'', cut_labels [Fin 0, Fin 7, Fin 14, Fin 21, Fin 30, Fin 60, Fin 90, Fin 10000]
           [''0-1 week'', ''1-2 weeks'', ''2-3 weeks'', ''3-4 weeks'', ''1-2 months'',
            ''2-3 months'', ''3+ months''])]),
     (''signup_date'', [
        (''By Year'', by_year),
        (''By Month'', by_period month_str),
        (''By Quarter'', by_period quarter_str),
        (''By Week'', by_period week_str)]),
     (''total_revenue'', [
        (''Low/Medium/High'', cut_labels [Fin 0, Fin 100, Fin 500, PInf]
           [''Low (<$100)'', ''Medium ($100-500)'', ''High ($500+)'']),
        (''Quartiles'', quartiles),
        (''Detailed'', cut_labels [Fin 0, Fin 50, Fin 100, Fin 250, Fin 500, Fin 1000, PInf]
           [''<$50'', ''$50-100'', ''$100-250'', ''$250-500'', ''$500-1000'', ''$1000+''])]),
     (''ltv'', [
        (''Low/Medium/High'', cut_labels [Fin 0, Fin 200, Fin 1000, PInf]
           [''Low (<$200)'', ''Medium ($200-1000)'', ''High ($1000+)'']),
        (''Quartiles'', quartiles),
        (''Detailed'', cut_labels [Fin 0, Fin 100, Fin 250, Fin 500, Fin 1000, Fin 2000, PInf]
           [''<$100'', ''$100-250'', ''$250-500'', ''$500-1000'', ''$1000-2000'', ''$2000+''])]),
     (''total_orders'', [
        (''Low/Medium/High'', cut_labels [Fin 0, Fin 2, Fin 10, PInf]
           [''Low (0-2)'', ''Medium (3-10)'', ''High (10+)'']),
        (''Detailed'', cut_labels [Fin 0, Fin 1, Fin 3, Fin 5, Fin 10, Fin 20, PInf]
           [''0-1'', ''2-3'', ''4-5'', ''6-10'', ''11-20'', ''20+''])])] \<rparr>"


text \<open>
  \<open>dimension in self.bucket_definitions and bucket_type in
  self.bucket_definitions[dimension]\<close>, and the function found there.
\<close>

definition registered :: "PivotEngine \<Rightarrow> string \<Rightarrow> string \<Rightarrow> bucket_fn option" where
  "registered self dimension bucket_type =
     (case map_of (bucket_definitions self) dimension of
        None \<Rightarrow> None
      | Some strategies \<Rightarrow> map_of strategies bucket_type)"

subsection \<open>\<open>_apply_custom_bucketing\<close> and \<open>apply_bucketing\<close>\<close>

text \<open>
  The body of \<open>_apply_custom_bucketing\<close> sits in \<open>try ... except Exception: return
  series\<close>, so the function returns a series on every path. Inside, the inner
  \<open>try\<close> covers the parsing of the tokens and the call of \<open>pd.cut\<close>; its handler
  \<open>except ValueError\<close> runs the label branch (\<open>pd.qcut\<close> with the tokens as labels),
  whose own exceptions reach the outer handler. An exception of \<open>pd.cut\<close> other than
  \<open>ValueError\<close> goes to the outer handler directly.
\<close>

definition categorical_ranges :: "series \<Rightarrow> string list \<Rightarrow> series" where
  "categorical_ranges series ranges =
     (if length ranges > 1 then
        (case qcut series (length ranges) (Some ranges) True of
           Inr r \<Rightarrow> r
         | Inl e \<Rightarrow> series)
      else series)"

definition apply_custom_bucketing :: "series \<Rightarrow> string \<Rightarrow> series" where
  "apply_custom_bucketing series custom_ranges =
     (if CHR '','' \<in> set custom_ranges then
        (let ranges = map strip (split_comma custom_ranges)
         in case floats ranges of
              Inl e \<Rightarrow> categorical_ranges series ranges
            | Inr numeric_ranges \<Rightarrow>
               if length numeric_ranges \<ge> 2 then
                 (case cut series numeric_ranges None True of
                    Inr r \<Rightarrow> r
                  | Inl e \<Rightarrow> if e = ValueError then categorical_ranges series ranges else series)
               else series)
      else series)"

definition apply_bucketing ::
  "PivotEngine \<Rightarrow> series \<Rightarrow> string \<Rightarrow> string option \<Rightarrow> string option \<Rightarrow> error + series" where
  "apply_bucketing self series dimension bucket_type custom_ranges =
     (case bucket_type of
        None \<Rightarrow> Inr series
      | Some bt \<Rightarrow>
         if bt = ''No Bucketing'' then Inr series
         else if bt = ''Custom Buckets'' \<and> custom_ranges \<noteq> None \<and> custom_ranges \<noteq> Some []
         then Inr (apply_custom_bucketing series (case custom_ranges of Some c \<Rightarrow> c | None \<Rightarrow> []))
         else (case registered self dimension bt of
                 Some f \<Rightarrow> f series
               | None \<Rightarrow>
                  if dimension = ''churn_risk_score'' then
                    (if bt = ''Risk Levels''
                     then cut series [Fin 0, Fin (3 / 10), Fin (7 / 10), Fin 1]
                            (Some [''Low Risk'', ''Medium Risk'', ''High Risk'']) False
                     else Inr series)
                  else if dimension = ''nps_score'' then
                    (if bt = ''NPS Categories''
                     then cut series [Fin 0, Fin 6, Fin 8, Fin 10]
                            (Some [''Detractors (0-6)'', ''Passives (7-8)'', ''Promoters (9-10)'']) False
                     else Inr series)
                  else Inr series))"

subsection \<open>Tables and frames\<close>

text \<open>
  The input \<open>DataFrame\<close> is a record table: its column names and its rows, each row
  giving a value to every column name. \<open>df[name]\<close> is the column as a series and raises
  \<open>KeyError\<close> for a name that is not a column. The result of \<open>pd.crosstab\<close> is a frame:
  row labels, column labels and the matrix of cells, row by row.
\<close>

record table =
  column_names :: "string list"
  rows :: "(string \<Rightarrow> val) list"

record frame =
  index :: "val list"
  columns :: "val list"
  data :: "fl list list"

definition getitem :: "table \<Rightarrow> string \<Rightarrow> error + series" where
  "getitem df name = (if name \<in> set (column_names df) then Inr (map (\<lambda>r. r name) (rows df)) else Inl KeyError)"

definition bind_err :: "error + 'a \<Rightarrow> ('a \<Rightarrow> error + 'b) \<Rightarrow> error + 'b" where
  "bind_err m f = (case m of Inl e \<Rightarrow> Inl e | Inr x \<Rightarrow> f x)"

text \<open>
  The order in which \<open>groupby\<close> lists its keys: numbers by value, strings by code
  point, timestamps by time, categorical values by category code.
\<close>

fun val_key :: "val \<Rightarrow> nat \<times> rat \<times> string" where
  "val_key (Num r) = (0, r, [])"
| "val_key (Bool b) = (1, if b then 1 else 0, [])"
| "val_key (Str s) = (2, 0, s)"
| "val_key (Time t) = (3, of_int t, [])"
| "val_key (Cat i l) = (4, of_nat i, [])"
| "val_key NaN = (5, 0, [])"

definition sort_labels :: "val list \<Rightarrow> val list" where
  "sort_labels ls = sort_key val_key (remdups ls)"

text \<open>The frame with the given labels whose cell at \<open>(r, c)\<close> is \<open>f r c\<close>.\<close>

definition tabulate :: "val list \<Rightarrow> val list \<Rightarrow> (val \<Rightarrow> val \<Rightarrow> fl) \<Rightarrow> frame" where
  "tabulate idx cols f = \<lparr> index = idx, columns = cols, data = map (\<lambda>r. map (f r) cols) idx \<rparr>"

fun index_of :: "'a list \<Rightarrow> 'a \<Rightarrow> nat" where
  "index_of [] a = 0"
| "index_of (x # xs) a = (if x = a then 0 else Suc (index_of xs a))"

text \<open>\<open>frame.loc[r, c]\<close>: the cell at a row label and a column label, \<open>KeyError\<close> without.\<close>

definition loc :: "frame \<Rightarrow> val \<Rightarrow> val \<Rightarrow> error + fl" where
  "loc p r c =
     (if r \<in> set (index p) \<and> c \<in> set (columns p)
      then Inr (data p ! index_of (index p) r ! index_of (columns p) c)
      else Inl KeyError)"

definition map_cells :: "(fl \<Rightarrow> fl) \<Rightarrow> frame \<Rightarrow> frame" where
  "map_cells g p = p \<lparr> data := map (map g) (data p) \<rparr>"

subsection \<open>\<open>pd.crosstab\<close>\<close>

text \<open>
  \<open>pd.crosstab(index, columns, values, aggfunc)\<close> groups the rows by the pair of their
  two labels. A row with a missing label belongs to no group (\<open>dropna=True\<close>).
  Every group is aggregated; a group whose aggregate is missing is dropped. The row
  labels and the column labels of the result are those of the remaining groups, in
  sorted order, categories that do not occur are not listed. A cell without a group
  holds the fill value.
\<close>

definition observed :: "series \<Rightarrow> series \<Rightarrow> 'v list \<Rightarrow> ((val \<times> val) \<times> 'v) list" where
  "observed x y vals = filter (\<lambda>(k, v). \<not> isna (fst k) \<and> \<not> isna (snd k)) (zip (zip x y) vals)"

definition group :: "((val \<times> val) \<times> 'v) list \<Rightarrow> val \<times> val \<Rightarrow> 'v list" where
  "group recs k = map snd (filter (\<lambda>(k', v). k' = k) recs)"

definition crosstab_gen :: "series \<Rightarrow> series \<Rightarrow> 'v list \<Rightarrow> ('v list \<Rightarrow> fl) \<Rightarrow> fl \<Rightarrow> frame" where
  "crosstab_gen x y vals agg fill =
     (let recs = observed x y vals;
          keys = remdups (map fst recs);
          agged = map (\<lambda>k. (k, agg (group recs k))) keys;
          kept = filter (\<lambda>(k, a). a \<noteq> NaNf) agged
      in tabulate (sort_labels (map (fst \<circ> fst) kept)) (sort_labels (map (snd \<circ> fst) kept))
           (\<lambda>r c. case map_of kept (r, c) of Some a \<Rightarrow> a | None \<Rightarrow> fill))"

text \<open>
  Without \<open>values\<close> the aggregate is the number of rows of the group (\<open>aggfunc=len\<close> on
  a dummy column) and the fill value is 0.
\<close>

definition crosstab :: "series \<Rightarrow> series \<Rightarrow> frame" where
  "crosstab x y =
     crosstab_gen x y (replicate (length x) (0::nat)) (\<lambda>vs. Fin (of_nat (length vs))) (Fin 0)"

text \<open>
  With \<open>values\<close> the aggregate is taken over the non-missing values of the group:
  \<open>sum\<close> is 0 without any, \<open>mean\<close> is missing. The cells without a group are missing.
  The engine's metric fields are numeric or boolean (a boolean counts as 0 or 1);
  a metric field of another kind is reported as \<open>TypeError\<close>.
\<close>

fun metric_num :: "val \<Rightarrow> error + rat option" where
  "metric_num (Num r) = Inr (Some r)"
| "metric_num (Bool b) = Inr (Some (if b then 1 else 0))"
| "metric_num NaN = Inr None"
| "metric_num (Time t) = Inl TypeError"
| "metric_num (Str s) = Inl TypeError"
| "metric_num (Cat i l) = Inl TypeError"

definition agg_sum :: "rat option list \<Rightarrow> fl" where
  "agg_sum vs = Fin (sum_list (somes vs))"

definition agg_mean :: "rat option list \<Rightarrow> fl" where
  "agg_mean vs = (if somes vs = [] then NaNf else Fin (sum_list (somes vs) / of_nat (length (somes vs))))"

definition crosstab_values ::
  "series \<Rightarrow> series \<Rightarrow> series \<Rightarrow> (rat option list \<Rightarrow> fl) \<Rightarrow> error + frame" where
  "crosstab_values x y values aggfunc =
     bind_err (coerce_all metric_num values) (\<lambda>vals. Inr (crosstab_gen x y vals aggfunc NaNf))"

subsection \<open>Frame operations\<close>

text \<open>\<open>round(n)\<close>: to n decimals, a tie goes to the even neighbour.\<close>

definition round_half_even :: "rat \<Rightarrow> int" where
  "round_half_even x =
     (let f = \<lfloor>x\<rfloor>; d = x - of_int f
      in if d < 1 / 2 then f else if d > 1 / 2 then f + 1 else if even f then f else f + 1)"

fun round_fl :: "nat \<Rightarrow> fl \<Rightarrow> fl" where
  "round_fl n (Fin x) = Fin (of_int (round_half_even (x * 10 ^ n)) / 10 ^ n)"
| "round_fl n a = a"

definition round_frame :: "nat \<Rightarrow> frame \<Rightarrow> frame" where
  "round_frame n = map_cells (round_fl n)"

fun fillna_fl :: "fl \<Rightarrow> fl \<Rightarrow> fl" where
  "fillna_fl v NaNf = v"
| "fillna_fl v a = a"

definition fillna :: "frame \<Rightarrow> fl \<Rightarrow> frame" where
  "fillna p v = map_cells (fillna_fl v) p"

text \<open>IEEE arithmetic on the specials; the sign of a zero is not modelled.\<close>

fun fl_neg :: "fl \<Rightarrow> fl" where
  "fl_neg (Fin a) = Fin (- a)"
| "fl_neg PInf = NInf"
| "fl_neg NInf = PInf"
| "fl_neg NaNf = NaNf"

fun fl_add :: "fl \<Rightarrow> fl \<Rightarrow> fl" where
  "fl_add NaNf _ = NaNf"
| "fl_add _ NaNf = NaNf"
| "fl_add (Fin a) (Fin b) = Fin (a + b)"
| "fl_add PInf NInf = NaNf"
| "fl_add NInf PInf = NaNf"
| "fl_add PInf _ = PInf"
| "fl_add NInf _ = NInf"
| "fl_add (Fin a) b = b"

definition fl_sub :: "fl \<Rightarrow> fl \<Rightarrow> fl" where
  "fl_sub a b = fl_add a (fl_neg b)"

fun fl_mul :: "fl \<Rightarrow> fl \<Rightarrow> fl" where
  "fl_mul NaNf _ = NaNf"
| "fl_mul _ NaNf = NaNf"
| "fl_mul (Fin a) (Fin b) = Fin (a * b)"
| "fl_mul (Fin a) PInf = (if a = 0 then NaNf else if a > 0 then PInf else NInf)"
| "fl_mul (Fin a) NInf = (if a = 0 then NaNf else if a > 0 then NInf else PInf)"
| "fl_mul PInf (Fin b) = (if b = 0 then NaNf else if b > 0 then PInf else NInf)"
| "fl_mul NInf (Fin b) = (if b = 0 then NaNf else if b > 0 then NInf else PInf)"
| "fl_mul PInf PInf = PInf"
| "fl_mul PInf NInf = NInf"
| "fl_mul NInf PInf = NInf"
| "fl_mul NInf NInf = PInf"

fun fl_div :: "fl \<Rightarrow> fl \<Rightarrow> fl" where
  "fl_div NaNf _ = NaNf"
| "fl_div _ NaNf = NaNf"
| "fl_div (Fin a) (Fin b) =
     (if b \<noteq> 0 then Fin (a / b) else if a = 0 then NaNf else if a > 0 then PInf else NInf)"
| "fl_div (Fin a) PInf = Fin 0"
| "fl_div (Fin a) NInf = Fin 0"
| "fl_div PInf (Fin b) = (if b \<ge> 0 then PInf else NInf)"
| "fl_div NInf (Fin b) = (if b \<ge> 0 then NInf else PInf)"
| "fl_div PInf _ = NaNf"
| "fl_div NInf _ = NaNf"

text \<open>Arithmetic of two frames with the same labels, cell by cell.\<close>

definition zip_cells :: "(fl \<Rightarrow> fl \<Rightarrow> fl) \<Rightarrow> frame \<Rightarrow> frame \<Rightarrow> frame" where
  "zip_cells g p q = p \<lparr> data := map2 (map2 g) (data p) (data q) \<rparr>"

text \<open>\<open>replace([np.inf, -np.inf], v)\<close>.\<close>

fun replace_inf_fl :: "fl \<Rightarrow> fl \<Rightarrow> fl" where
  "replace_inf_fl v PInf = v"
| "replace_inf_fl v NInf = v"
| "replace_inf_fl v a = a"

definition replace_inf :: "frame \<Rightarrow> fl \<Rightarrow> frame" where
  "replace_inf p v = map_cells (replace_inf_fl v) p"

text \<open>\<open>Index.union\<close>: the labels of both, each once, sorted.\<close>

definition union_index :: "val list \<Rightarrow> val list \<Rightarrow> val list" where
  "union_index a b = sort_labels (a @ b)"

text \<open>\<open>reindex(index=..., columns=..., fill_value=v)\<close>: a cell of the old frame where
  both labels are old, the fill value elsewhere.\<close>

definition reindex :: "frame \<Rightarrow> val list \<Rightarrow> val list \<Rightarrow> fl \<Rightarrow> frame" where
  "reindex p idx cols v =
     tabulate idx cols (\<lambda>r c. case loc p r c of Inr a \<Rightarrow> a | Inl e \<Rightarrow> v)"

text \<open>The sum of all cells (\<open>frame.sum().sum()\<close>, missing cells skipped).\<close>

definition frame_sum :: "frame \<Rightarrow> fl" where
  "frame_sum p = foldr fl_add (filter (\<lambda>a. a \<noteq> NaNf) (concat (data p))) (Fin 0)"

subsection \<open>\<open>create_pivot_table\<close>\<close>

text \<open>
  The working copy \<open>pivot_df = df.copy()\<close> has the value of \<open>df\<close>. The two axes are
  read and bucketed in turn, then the metric selects the cross-tabulation. A metric name
  outside the six leaves \<open>pivot_table\<close> unassigned, and the following
  \<open>pivot_table.fillna(0)\<close> raises \<open>UnboundLocalError\<close>.
\<close>

definition create_pivot_table ::
  "PivotEngine \<Rightarrow> table \<Rightarrow> string \<Rightarrow> string \<Rightarrow> string \<Rightarrow> string option \<Rightarrow> string option
     \<Rightarrow> string option \<Rightarrow> string option \<Rightarrow> error + frame" where
  "create_pivot_table self df x_axis y_axis metric x_bucket_type y_bucket_type
       x_custom_ranges y_custom_ranges =
     (let pivot_df = df
      in bind_err (getitem pivot_df x_axis) (\<lambda>xs.
         bind_err (apply_bucketing self xs x_axis x_bucket_type x_custom_ranges) (\<lambda>x_data.
         bind_err (getitem pivot_df y_axis) (\<lambda>ys.
         bind_err (apply_bucketing self ys y_axis y_bucket_type y_custom_ranges) (\<lambda>y_data.
         bind_err
           (if metric = ''Count'' then Inr (crosstab x_data y_data)
            else if metric = ''Total Revenue'' then
              bind_err (getitem pivot_df ''total_revenue'') (\<lambda>v.
              bind_err (crosstab_values x_data y_data v agg_sum) (\<lambda>t. Inr (round_frame 2 t)))
            else if metric = ''Avg LTV'' then
              bind_err (getitem pivot_df ''ltv'') (\<lambda>v.
              bind_err (crosstab_values x_data y_data v agg_mean) (\<lambda>t. Inr (round_frame 2 t)))
            else if metric = ''Retention Rate'' then
              bind_err (getitem pivot_df ''is_retained'') (\<lambda>v.
              bind_err (crosstab_values x_data y_data v agg_mean) (\<lambda>t.
                Inr (map_cells (\<lambda>a. fl_mul a (Fin 100)) (round_frame 3 t))))
            else if metric = ''Avg AOV'' then
              bind_err (getitem pivot_df ''average_order_value'') (\<lambda>v.
              bind_err (crosstab_values x_data y_data v agg_mean) (\<lambda>t. Inr (round_frame 2 t)))
            else if metric = ''Total Orders'' then
              bind_err (getitem pivot_df ''total_orders'') (\<lambda>v.
              crosstab_values x_data y_data v agg_sum)
            else Inl UnboundLocalError)
           (\<lambda>pivot_table. Inr (fillna pivot_table (Fin 0))))))))"

subsection \<open>\<open>compare_segments\<close>\<close>

record comparison =
  absolute_difference :: frame
  percentage_difference :: frame
  pivot1 :: frame
  pivot2 :: frame

definition compare_segments ::
  "PivotEngine \<Rightarrow> table \<Rightarrow> table \<Rightarrow> string \<Rightarrow> string \<Rightarrow> string \<Rightarrow> string option \<Rightarrow> string option
     \<Rightarrow> error + comparison" where
  "compare_segments self df1 df2 x_axis y_axis metric x_bucket_type y_bucket_type =
     bind_err (create_pivot_table self df1 x_axis y_axis metric x_bucket_type y_bucket_type None None)
       (\<lambda>p1.
     bind_err (create_pivot_table self df2 x_axis y_axis metric x_bucket_type y_bucket_type None None)
       (\<lambda>p2.
       let all_index = union_index (index p1) (index p2);
           all_columns = union_index (columns p1) (columns p2);
           p1' = reindex p1 all_index all_columns (Fin 0);
           p2' = reindex p2 all_index all_columns (Fin 0);
           difference = zip_cells fl_sub p1' p2';
           percentage_diff =
             replace_inf
               (map_cells (\<lambda>a. fl_mul a (Fin 100)) (zip_cells fl_div (zip_cells fl_sub p1' p2') p2'))
               (Fin 0)
       in Inr \<lparr> absolute_difference = difference, percentage_difference = percentage_diff,
                pivot1 = p1', pivot2 = p2' \<rparr>))"

subsection \<open>The caller's table\<close>



subsection \<open>Inputs used in the examples\<close>

text \<open>A row written as a Python dict.\<close>

definition row_of :: "(string \<times> val) list \<Rightarrow> string \<Rightarrow> val" where
  "row_of kvs name = (case map_of kvs name of Some v \<Rightarrow> v | None \<Rightarrow> NaN)"

text \<open>A numeric column may hold numbers, booleans and missing values.\<close>

fun numeric :: "val \<Rightarrow> bool" where
  "numeric (Num r) = True"
| "numeric (Bool b) = True"
| "numeric NaN = True"
| "numeric _ = False"

text \<open>The metric names that a branch of \<open>create_pivot_table\<close> tests for.\<close>

definition metrics :: "string list" where
  "metrics = [''Count'', ''Total Revenue'', ''Avg LTV'', ''Retention Rate'', ''Avg AOV'', ''Total Orders'']"

text \<open>Two customers in different cells: (US, Mobile) and (UK, Desktop).\<close>

definition two_cells :: table where
  "two_cells = \<lparr> column_names = [''country'', ''device_type''],
                 rows = [row_of [(''country'', Str ''US''), (''device_type'', Str ''Mobile'')],
                         row_of [(''country'', Str ''UK''), (''device_type'', Str ''Desktop'')]] \<rparr>"

text \<open>Two customers, one of them older than 50.\<close>

definition two_ages :: table where
  "two_ages = \<lparr> column_names = [''age'', ''gender''],
                rows = [row_of [(''age'', Num 20), (''gender'', Str ''Male'')],
                        row_of [(''age'', Num 60), (''gender'', Str ''Female'')]] \<rparr>"

text \<open>A single customer in a third cell.\<close>

definition one_cell :: table where
  "one_cell = \<lparr> column_names = [''country'', ''device_type''],
                rows = [row_of [(''country'', Str ''DE''), (''device_type'', Str ''Tablet'')]] \<rparr>"


section \<open>Properties\<close>

subsection \<open>Custom range strings\<close>

lemma split_comma_nonempty: "split_comma s \<noteq> []"
  by (induction s) (auto split: list.splits)

lemma split_comma_length: "2 \<le> length (split_comma s) \<longleftrightarrow> CHR '','' \<in> set s"
proof (induction s)
  case Nil
  then show ?case by simp
next
  case (Cons c cs)
  have ne: "split_comma cs \<noteq> []" by (rule split_comma_nonempty)
  show ?case
  proof (cases "c = CHR '',''")
    case True
    with ne show ?thesis by (cases "split_comma cs") auto
  next
    case False
    with Cons ne show ?thesis by (cases "split_comma cs") auto
  qed
qed

text \<open>
  C10. A custom-range string without a comma, a single token, leaves the column as it
  is, also when the token is a number; so does \<open>apply_bucketing\<close> with
  \<open>Custom Buckets\<close> and such a string. Whenever custom bucketing changes the column,
  the string has at least two comma-separated tokens.
\<close>

theorem custom_single_token_unchanged:
  "(CHR '','' \<notin> set custom_ranges \<longrightarrow>
      apply_custom_bucketing series custom_ranges = series
      \<and> (custom_ranges \<noteq> [] \<longrightarrow>
           apply_bucketing self series dimension (Some ''Custom Buckets'') (Some custom_ranges)
             = Inr series))
   \<and> (apply_custom_bucketing series custom_ranges \<noteq> series \<longrightarrow>
        2 \<le> length (split_comma custom_ranges))"
proof -
  have a: "CHR '','' \<notin> set custom_ranges \<Longrightarrow> apply_custom_bucketing series custom_ranges = series"
    by (simp add: apply_custom_bucketing_def)
  have b: "apply_custom_bucketing series custom_ranges \<noteq> series \<Longrightarrow> CHR '','' \<in> set custom_ranges"
    using a by blast
  show ?thesis
    using a b by (auto simp: apply_bucketing_def split_comma_length)
qed

theorem custom_single_token_unchanged_witness:
  "CHR '','' \<notin> set ''5'' \<and> pyfloat ''5'' = Inr (Fin 5)
   \<and> apply_custom_bucketing [Num 1, Num 7] ''5'' = [Num 1, Num 7]
   \<and> apply_bucketing init [Num 1, Num 7] ''age'' (Some ''Custom Buckets'') (Some ''5'')
       = Inr [Num 1, Num 7]
   \<and> apply_custom_bucketing [Num 1, Num 7] ''0,5'' \<noteq> [Num 1, Num 7]
   \<and> 2 \<le> length (split_comma ''0,5'')"
proof -
  have p: "pyfloat ''5'' = Inr (Fin 5)" by code_simp
  have q: "apply_custom_bucketing [Num 1, Num 7] ''0,5'' \<noteq> [Num 1, Num 7]" by code_simp
  show ?thesis
    using custom_single_token_unchanged [of "''5''" "[Num 1, Num 7]" init "''age''"]
      custom_single_token_unchanged [of "''0,5''" "[Num 1, Num 7]" init "''age''"] p q
    by simp
qed

subsection \<open>Unknown strategies and failing custom ranges\<close>




subsection \<open>The boundaries 0, 25, 50, 75, 100\<close>

lemma coerce_all_numeric:
  "list_all numeric xs \<Longrightarrow>
   \<exists>ys. coerce_all cut_num xs = Inr ys \<and> length ys = length xs
        \<and> (\<forall>i<length xs. cut_num (xs ! i) = Inr (ys ! i))"
proof (induction xs)
  case Nil
  then show ?case by simp
next
  case (Cons v vs)
  then obtain ys where ys: "coerce_all cut_num vs = Inr ys" "length ys = length vs"
    "\<forall>i<length vs. cut_num (vs ! i) = Inr (ys ! i)" by auto
  from Cons.prems obtain x where x: "cut_num v = Inr x" by (cases v) auto
  show ?case using ys x by (auto simp: nth_Cons split: nat.splits)
qed

lemma parse_quarters:
  "floats (map strip (split_comma ''0,25,50,75,100''))
   = Inr [Fin 0, Fin 25, Fin 50, Fin 75, Fin 100]"
  by code_simp

lemma quarter_label:
  "take_label (format_labels [Fin 0, Fin 25, Fin 50, Fin 75, Fin 100] True)
     (bin_id [Fin 0, Fin 25, Fin 50, Fin 75, Fin 100] True x)
   = (case x of
        None \<Rightarrow> NaN
      | Some r \<Rightarrow>
         if 0 \<le> r \<and> r \<le> 25 then Cat 0 (Interval (Fin (- (1 / 1000))) (Fin 25))
         else if 25 < r \<and> r \<le> 50 then Cat 1 (Interval (Fin 25) (Fin 50))
         else if 50 < r \<and> r \<le> 75 then Cat 2 (Interval (Fin 50) (Fin 75))
         else if 75 < r \<and> r \<le> 100 then Cat 3 (Interval (Fin 75) (Fin 100))
         else NaN)"
  by (cases x)
     (auto simp: take_label_def format_labels_def bin_id_def searchsorted_left_def Let_def)

lemma cut_quarters:
  assumes "list_all numeric series"
  shows "cut series [Fin 0, Fin 25, Fin 50, Fin 75, Fin 100] None True
         = Inr (map (\<lambda>v. case cut_num v of
                            Inr x \<Rightarrow>
                              take_label (format_labels [Fin 0, Fin 25, Fin 50, Fin 75, Fin 100] True)
                                (bin_id [Fin 0, Fin 25, Fin 50, Fin 75, Fin 100] True x)
                          | Inl e \<Rightarrow> NaN) series)"
proof -
  from coerce_all_numeric [OF assms] obtain ys where
    ys: "coerce_all cut_num series = Inr ys" "length ys = length series"
        "\<forall>i<length series. cut_num (series ! i) = Inr (ys ! i)" by blast
  have "map (\<lambda>x. take_label (format_labels [Fin 0, Fin 25, Fin 50, Fin 75, Fin 100] True)
               (bin_id [Fin 0, Fin 25, Fin 50, Fin 75, Fin 100] True x)) ys
        = map (\<lambda>v. case cut_num v of
                      Inr x \<Rightarrow>
                        take_label (format_labels [Fin 0, Fin 25, Fin 50, Fin 75, Fin 100] True)
                          (bin_id [Fin 0, Fin 25, Fin 50, Fin 75, Fin 100] True x)
                    | Inl e \<Rightarrow> NaN) series"
    using ys by (intro nth_equalityI) simp_all
  then show ?thesis
    using ys(1) by (simp add: cut_def bins_to_cuts_def fl_le_def Let_def comp_def)
qed

text \<open>
  C4. On a numeric column the range string \<open>0,25,50,75,100\<close> gives every value of
  [0, 100] exactly one of four interval buckets, the edge 0 included in the first, and
  gives a value outside [0, 100] no bucket (the missing label, which contributes to no
  cell of a pivot).
\<close>

theorem custom_quarter_buckets:
  assumes "list_all numeric series"
  shows "apply_custom_bucketing series ''0,25,50,75,100''
         = map (\<lambda>v. case cut_num v of
                       Inr (Some r) \<Rightarrow>
                         if 0 \<le> r \<and> r \<le> 25 then Cat 0 (Interval (Fin (- (1 / 1000))) (Fin 25))
                         else if 25 < r \<and> r \<le> 50 then Cat 1 (Interval (Fin 25) (Fin 50))
                         else if 50 < r \<and> r \<le> 75 then Cat 2 (Interval (Fin 50) (Fin 75))
                         else if 75 < r \<and> r \<le> 100 then Cat 3 (Interval (Fin 75) (Fin 100))
                         else NaN
                     | _ \<Rightarrow> NaN) series"
proof -
  have c: "CHR '','' \<in> set ''0,25,50,75,100''" by simp
  have "apply_custom_bucketing series ''0,25,50,75,100''
        = map (\<lambda>v. case cut_num v of
                      Inr x \<Rightarrow>
                        take_label (format_labels [Fin 0, Fin 25, Fin 50, Fin 75, Fin 100] True)
                          (bin_id [Fin 0, Fin 25, Fin 50, Fin 75, Fin 100] True x)
                    | Inl e \<Rightarrow> NaN) series"
    unfolding apply_custom_bucketing_def
    using c by (simp only: if_True Let_def parse_quarters) (simp add: cut_quarters [OF assms])
  also have "\<dots> = map (\<lambda>v. case cut_num v of
                       Inr (Some r) \<Rightarrow>
                         if 0 \<le> r \<and> r \<le> 25 then Cat 0 (Interval (Fin (- (1 / 1000))) (Fin 25))
                         else if 25 < r \<and> r \<le> 50 then Cat 1 (Interval (Fin 25) (Fin 50))
                         else if 50 < r \<and> r \<le> 75 then Cat 2 (Interval (Fin 50) (Fin 75))
                         else if 75 < r \<and> r \<le> 100 then Cat 3 (Interval (Fin 75) (Fin 100))
                         else NaN
                     | _ \<Rightarrow> NaN) series"
    by (rule map_cong) (auto simp: quarter_label split: sum.splits option.splits)
  finally show ?thesis .
qed

theorem custom_quarter_buckets_witness:
  "list_all numeric [Num 0, Num 25, Num (51 / 2), Num 75, Num 100, Num 101, Num (- 1), NaN]
   \<and> apply_custom_bucketing [Num 0, Num 25, Num (51 / 2), Num 75, Num 100, Num 101, Num (- 1), NaN]
        ''0,25,50,75,100''
     = [Cat 0 (Interval (Fin (- (1 / 1000))) (Fin 25)), Cat 0 (Interval (Fin (- (1 / 1000))) (Fin 25)),
        Cat 1 (Interval (Fin 25) (Fin 50)), Cat 2 (Interval (Fin 50) (Fin 75)),
        Cat 3 (Interval (Fin 75) (Fin 100)), NaN, NaN, NaN]"
  using custom_quarter_buckets
    [of "[Num 0, Num 25, Num (51 / 2), Num 75, Num 100, Num 101, Num (- 1), NaN]"]
  by simp

subsection \<open>Metric names\<close>

text \<open>
  C9. For a metric name outside the six recognised ones, \<open>create_pivot_table\<close> raises:
  no branch assigns \<open>pivot_table\<close>, so once both axes are read and bucketed the call
  ends in \<open>UnboundLocalError\<close> (an earlier exception of an axis takes precedence). A
  frame is returned for the six metric names only.
\<close>

theorem unknown_metric_raises:
  assumes "metric \<notin> set metrics"
  shows "(\<exists>e. create_pivot_table self df x_axis y_axis metric xb yb xc yc = Inl e)
         \<and> (\<forall>xs x_data ys y_data.
              getitem df x_axis = Inr xs \<and> apply_bucketing self xs x_axis xb xc = Inr x_data
              \<and> getitem df y_axis = Inr ys \<and> apply_bucketing self ys y_axis yb yc = Inr y_data
              \<longrightarrow> create_pivot_table self df x_axis y_axis metric xb yb xc yc
                    = Inl UnboundLocalError)"
  using assms
  by (auto simp: create_pivot_table_def bind_err_def metrics_def Let_def split: sum.splits)

theorem unknown_metric_raises_witness:
  "''Median LTV'' \<notin> set metrics
   \<and> getitem two_cells ''country'' = Inr [Str ''US'', Str ''UK'']
   \<and> getitem two_cells ''device_type'' = Inr [Str ''Mobile'', Str ''Desktop'']
   \<and> create_pivot_table init two_cells ''country'' ''device_type'' ''Median LTV'' None None None None
       = Inl UnboundLocalError"
proof -
  have m: "''Median LTV'' \<notin> set metrics" by (simp add: metrics_def)
  have g: "getitem two_cells ''country'' = Inr [Str ''US'', Str ''UK'']"
    "getitem two_cells ''device_type'' = Inr [Str ''Mobile'', Str ''Desktop'']" by code_simp+
  have a: "apply_bucketing init [Str ''US'', Str ''UK''] ''country'' None None
           = Inr [Str ''US'', Str ''UK'']"
     "apply_bucketing init [Str ''Mobile'', Str ''Desktop''] ''device_type'' None None
           = Inr [Str ''Mobile'', Str ''Desktop'']"
    by (simp_all add: apply_bucketing_def)
  from unknown_metric_raises [OF m, of init two_cells "''country''" "''device_type''" None None None None]
  show ?thesis using m g a by blast
qed

subsection \<open>Frames as tabulated functions\<close>

lemma index_of_nth: "a \<in> set xs \<Longrightarrow> index_of xs a < length xs \<and> xs ! index_of xs a = a"
  by (induction xs) auto

lemma loc_tabulate:
  "loc (tabulate idx cols f) r c
   = (if r \<in> set idx \<and> c \<in> set cols then Inr (f r c) else Inl KeyError)"
  using index_of_nth [of r idx] index_of_nth [of c cols]
  by (simp add: loc_def tabulate_def)

lemma set_sort_labels: "set (sort_labels xs) = set xs"
  by (simp add: sort_labels_def)

lemma distinct_sort_labels: "distinct (sort_labels xs)"
  by (simp add: sort_labels_def)

lemma length_sort_labels: "length (sort_labels xs) = card (set xs)"
  by (simp add: sort_labels_def length_remdups_card_conv)

lemma map_cells_tabulate:
  "map_cells g (tabulate idx cols f) = tabulate idx cols (\<lambda>r c. g (f r c))"
  by (simp add: map_cells_def tabulate_def comp_def)

lemma map_of_kept:
  "map_of (filter (\<lambda>(k, a). a \<noteq> NaNf) (map (\<lambda>k. (k, g k)) ks)) k
   = (if k \<in> set ks \<and> g k \<noteq> NaNf then Some (g k) else None)"
  by (induction ks) auto

lemma crosstab_gen_tabulate:
  "crosstab_gen x y vals agg fill
   = (let recs = observed x y vals;
          ks = filter (\<lambda>k. agg (group recs k) \<noteq> NaNf) (remdups (map fst recs))
      in tabulate (sort_labels (map fst ks)) (sort_labels (map snd ks))
           (\<lambda>r c. if (r, c) \<in> set ks then agg (group recs (r, c)) else fill))"
proof -
  let ?recs = "observed x y vals"
  let ?g = "\<lambda>k. agg (group ?recs k)"
  let ?keys = "remdups (map fst ?recs)"
  let ?kept = "filter (\<lambda>(k, a). a \<noteq> NaNf) (map (\<lambda>k. (k, ?g k)) ?keys)"
  have k': "map fst ?kept = filter (\<lambda>k. ?g k \<noteq> NaNf) ?keys"
    by (simp add: filter_map comp_def)
  have c: "(\<lambda>r c. case map_of ?kept (r, c) of Some a \<Rightarrow> a | None \<Rightarrow> fill)
           = (\<lambda>r c. if (r, c) \<in> set (filter (\<lambda>k. ?g k \<noteq> NaNf) ?keys) then ?g (r, c) else fill)"
    by (intro ext) (simp add: map_of_kept)
  have i: "map (fst \<circ> fst) ?kept = map fst (map fst ?kept)"
          "map (snd \<circ> fst) ?kept = map snd (map fst ?kept)" by simp_all
  show ?thesis
    unfolding crosstab_gen_def Let_def i c k' ..
qed


lemma length_group: "length (group recs k) = count_list (map fst recs) k"
  by (induction recs) (auto simp: group_def)

lemma fst_observed_count:
  "map fst (observed x y (replicate (length x) (0::nat)))
   = filter (\<lambda>(a, b). \<not> isna a \<and> \<not> isna b) (zip x y)"
proof -
  have "map fst (filter (\<lambda>(k, v). P k) (zip ks vs)) = filter P ks" if "length ks \<le> length vs"
    for P :: "val \<times> val \<Rightarrow> bool" and ks and vs :: "nat list"
    using that
  proof (induction ks arbitrary: vs)
    case Nil
    then show ?case by simp
  next
    case (Cons k ks)
    then show ?case by (cases vs) auto
  qed
  from this [of "zip x y" "replicate (length x) 0" "\<lambda>k. \<not> isna (fst k) \<and> \<not> isna (snd k)"]
  show ?thesis
    by (simp add: observed_def case_prod_unfold)
qed

lemma crosstab_tabulate:
  "crosstab x y
   = (let ks = filter (\<lambda>(a, b). \<not> isna a \<and> \<not> isna b) (zip x y)
      in tabulate (sort_labels (map fst ks)) (sort_labels (map snd ks))
           (\<lambda>r c. Fin (of_nat (count_list ks (r, c)))))"
proof -
  let ?ks = "filter (\<lambda>(a, b). \<not> isna a \<and> \<not> isna b) (zip x y)"
  have s: "set (map fst (remdups ?ks)) = set (map fst ?ks)" "set (map snd (remdups ?ks)) = set (map snd ?ks)"
    by simp_all
  have sl: "sort_labels (map fst (remdups ?ks)) = sort_labels (map fst ?ks)"
    "sort_labels (map snd (remdups ?ks)) = sort_labels (map snd ?ks)"
    unfolding sort_labels_def
    by (metis remdups_map_remdups)+
  have c: "(\<lambda>r c. if (r, c) \<in> set (remdups ?ks) then Fin (of_nat (count_list ?ks (r, c))) else Fin 0)
           = (\<lambda>r c. Fin (of_nat (count_list ?ks (r, c))))"
    by (intro ext) (auto simp: count_notin)
  have f: "filter (\<lambda>k. Fin (of_nat (count_list ?ks k)) \<noteq> NaNf) (remdups ?ks) = remdups ?ks"
    by simp
  show ?thesis
    unfolding crosstab_def crosstab_gen_tabulate Let_def length_group fst_observed_count f sl c ..
qed

lemma foldr_fl_add_Fin: "foldr fl_add (map (\<lambda>x. Fin (g x)) xs) (Fin 0) = Fin (sum_list (map g xs))"
  by (induction xs) auto

lemma filter_Fin: "filter (\<lambda>a. a \<noteq> NaNf) (map (\<lambda>x. Fin (g x)) xs) = map (\<lambda>x. Fin (g x)) xs"
  by (induction xs) auto

lemma of_nat_sum_list_map:
  "(of_nat (sum_list (map f xs)) :: rat) = sum_list (map (\<lambda>x. of_nat (f x)) xs)"
  by (induction xs) auto

lemma frame_sum_tabulate_Fin:
  "frame_sum (tabulate idx cols (\<lambda>r c. Fin (n r c)))
   = Fin (sum_list (map (\<lambda>(r, c). n r c) (List.product idx cols)))"
proof -
  have "concat (map (\<lambda>r. map (\<lambda>c. Fin (n r c)) cols) idx)
        = map (\<lambda>p. Fin (case p of (r, c) \<Rightarrow> n r c)) (List.product idx cols)"
    by (induction idx) (auto simp: comp_def)
  then show ?thesis
    by (simp add: frame_sum_def tabulate_def foldr_fl_add_Fin filter_Fin)
qed

lemma sum_counts:
  assumes "distinct ps" "set ks \<subseteq> set ps"
  shows "sum_list (map (count_list ks) ps) = length ks"
proof -
  have "sum_list (map (count_list ks) ps) = sum (count_list ks) (set ps)"
    using assms(1) by (simp add: sum_list_distinct_conv_sum_set)
  also have "\<dots> = length ks"
    using assms(2) by (simp add: sum_count_set)
  finally show ?thesis .
qed

lemma frame_sum_crosstab:
  "frame_sum (crosstab x y)
   = Fin (of_nat (length (filter (\<lambda>(a, b). \<not> isna a \<and> \<not> isna b) (zip x y))))"
proof -
  let ?ks = "filter (\<lambda>(a, b). \<not> isna a \<and> \<not> isna b) (zip x y)"
  let ?ps = "List.product (sort_labels (map fst ?ks)) (sort_labels (map snd ?ks))"
  have d: "distinct ?ps" by (simp add: distinct_product distinct_sort_labels)
  have s: "set ?ks \<subseteq> set ?ps" by (force simp: set_sort_labels)
  have "sum_list (map (\<lambda>(r, c). (of_nat (count_list ?ks (r, c)) :: rat)) ?ps)
        = of_nat (sum_list (map (count_list ?ks) ?ps))"
    by (simp add: case_prod_unfold of_nat_sum_list_map)
  also have "\<dots> = of_nat (length ?ks)" using sum_counts [OF d s] by simp
  finally show ?thesis
    unfolding crosstab_tabulate Let_def frame_sum_tabulate_Fin by simp
qed

lemma fillna_crosstab: "fillna (crosstab x y) (Fin 0) = crosstab x y"
  unfolding crosstab_tabulate Let_def fillna_def map_cells_tabulate by simp

lemma create_pivot_table_Count:
  assumes "getitem df x_axis = Inr xs" "apply_bucketing self xs x_axis xb xc = Inr x_data"
    "getitem df y_axis = Inr ys" "apply_bucketing self ys y_axis yb yc = Inr y_data"
  shows "create_pivot_table self df x_axis y_axis ''Count'' xb yb xc yc = Inr (crosstab x_data y_data)"
  using assms by (simp add: create_pivot_table_def bind_err_def fillna_crosstab)

subsection \<open>The Count metric sums to the rows that have both labels\<close>

text \<open>
  C2, as stated, fails: a row whose label is missing after bucketing belongs to no cell.
  With the custom edges \<open>0,25,50\<close> on \<open>age\<close> the customer aged 60 gets no bucket, and
  the Count pivot of the two customers sums to 1.
\<close>

theorem count_drops_rows_counterexample:
  "create_pivot_table init two_ages ''age'' ''gender'' ''Count'' (Some ''Custom Buckets'') None
     (Some ''0,25,50'') None
   = Inr \<lparr> index = [Cat 0 (Interval (Fin (- (1 / 1000))) (Fin 25))], columns = [Str ''Male''],
           data = [[Fin 1]] \<rparr>
   \<and> frame_sum \<lparr> index = [Cat 0 (Interval (Fin (- (1 / 1000))) (Fin 25))], columns = [Str ''Male''],
                 data = [[Fin 1]] \<rparr> = Fin 1
   \<and> length (rows two_ages) = 2"
  by code_simp

text \<open>
  C2, amended. Whenever both axes can be read and bucketed, the Count pivot is returned
  and the sum of its cells is the number of input rows whose row label and column label
  are both present after bucketing. When no label is missing, that is the number of rows
  of the input table.
\<close>

theorem count_sum_is_observed_rows:
  assumes "getitem df x_axis = Inr xs" "apply_bucketing self xs x_axis xb xc = Inr x_data"
    "getitem df y_axis = Inr ys" "apply_bucketing self ys y_axis yb yc = Inr y_data"
  shows "\<exists>p. create_pivot_table self df x_axis y_axis ''Count'' xb yb xc yc = Inr p
          \<and> frame_sum p
              = Fin (of_nat (length (filter (\<lambda>(a, b). \<not> isna a \<and> \<not> isna b) (zip x_data y_data))))
          \<and> (length x_data = length (rows df) \<and> length y_data = length (rows df)
               \<and> (\<forall>v\<in>set x_data \<union> set y_data. \<not> isna v)
              \<longrightarrow> frame_sum p = Fin (of_nat (length (rows df))))"
proof -
  let ?ks = "filter (\<lambda>(a, b). \<not> isna a \<and> \<not> isna b) (zip x_data y_data)"
  have s: "frame_sum (crosstab x_data y_data) = Fin (of_nat (length ?ks))"
    by (rule frame_sum_crosstab)
  have "?ks = zip x_data y_data" if "\<forall>v\<in>set x_data \<union> set y_data. \<not> isna v"
    using that by (auto simp: filter_id_conv dest: set_zip_leftD set_zip_rightD)
  then have "length ?ks = length (rows df)"
    if "length x_data = length (rows df)" "length y_data = length (rows df)"
       "\<forall>v\<in>set x_data \<union> set y_data. \<not> isna v"
    using that by simp
  with s create_pivot_table_Count [OF assms] show ?thesis by auto
qed

theorem count_sum_is_observed_rows_witness:
  "getitem two_ages ''age'' = Inr [Num 20, Num 60]
   \<and> apply_bucketing init [Num 20, Num 60] ''age'' (Some ''Young/Old'') None
       = Inr [Cat 0 (Name ''Young (18-35)''), Cat 1 (Name ''Mature (35+)'')]
   \<and> getitem two_ages ''gender'' = Inr [Str ''Male'', Str ''Female'']
   \<and> apply_bucketing init [Str ''Male'', Str ''Female''] ''gender'' None None
       = Inr [Str ''Male'', Str ''Female'']
   \<and> \<not> isna (Cat 0 (Name ''Young (18-35)'')) \<and> \<not> isna (Cat 1 (Name ''Mature (35+)''))
   \<and> \<not> isna (Str ''Male'') \<and> \<not> isna (Str ''Female'')
   \<and> length (rows two_ages) = 2
   \<and> (\<exists>p. create_pivot_table init two_ages ''age'' ''gender'' ''Count'' (Some ''Young/Old'') None
             None None = Inr p
          \<and> frame_sum p = Fin 2)"
proof -
  have g: "getitem two_ages ''age'' = Inr [Num 20, Num 60]"
    "getitem two_ages ''gender'' = Inr [Str ''Male'', Str ''Female'']" by code_simp+
  have a: "apply_bucketing init [Num 20, Num 60] ''age'' (Some ''Young/Old'') None
           = Inr [Cat 0 (Name ''Young (18-35)''), Cat 1 (Name ''Mature (35+)'')]"
    "apply_bucketing init [Str ''Male'', Str ''Female''] ''gender'' None None
           = Inr [Str ''Male'', Str ''Female'']" by code_simp+
  have n: "\<forall>v\<in>set [Cat 0 (Name ''Young (18-35)''), Cat 1 (Name ''Mature (35+)'')]
            \<union> set [Str ''Male'', Str ''Female'']. \<not> isna v" by (simp add: isna_def)
  have l: "length (rows two_ages) = 2" by (simp add: two_ages_def)
  from count_sum_is_observed_rows [OF g(1) a(1) g(2) a(2)] n l
  have "\<exists>p. create_pivot_table init two_ages ''age'' ''gender'' ''Count'' (Some ''Young/Old'') None
             None None = Inr p \<and> frame_sum p = Fin 2"
    by auto
  with g a l show ?thesis by (simp add: isna_def)
qed

subsection \<open>Percentage difference where both aligned cells are 0\<close>

text \<open>
  C1. \<open>compare_segments\<close> replaces the infinities of the division by 0, but where the
  two aligned cells are both 0 the quotient \<open>0 / 0\<close> is NaN, which \<open>replace\<close> leaves in
  place. Comparing a table of two customers in different cells with itself: the cells
  (UK, Mobile) and (US, Desktop) are 0 on both sides and their percentage difference is
  NaN, not 0.
\<close>

theorem percentage_difference_nan:
  "compare_segments init two_cells two_cells ''country'' ''device_type'' ''Count'' None None
   = Inr \<lparr> absolute_difference =
             \<lparr> index = [Str ''UK'', Str ''US''], columns = [Str ''Desktop'', Str ''Mobile''],
               data = [[Fin 0, Fin 0], [Fin 0, Fin 0]] \<rparr>,
           percentage_difference =
             \<lparr> index = [Str ''UK'', Str ''US''], columns = [Str ''Desktop'', Str ''Mobile''],
               data = [[Fin 0, NaNf], [NaNf, Fin 0]] \<rparr>,
           pivot1 =
             \<lparr> index = [Str ''UK'', Str ''US''], columns = [Str ''Desktop'', Str ''Mobile''],
               data = [[Fin 1, Fin 0], [Fin 0, Fin 1]] \<rparr>,
           pivot2 =
             \<lparr> index = [Str ''UK'', Str ''US''], columns = [Str ''Desktop'', Str ''Mobile''],
               data = [[Fin 1, Fin 0], [Fin 0, Fin 1]] \<rparr> \<rparr>"
  by code_simp

subsection \<open>The caller's table is not touched\<close>



subsection \<open>Alignment of two pivots\<close>

lemma loc_reindex:
  "loc (reindex p idx cols v) r c
   = (if r \<in> set idx \<and> c \<in> set cols
      then (if r \<in> set (index p) \<and> c \<in> set (columns p) then loc p r c else Inr v)
      else Inl KeyError)"
  by (simp add: reindex_def loc_tabulate) (simp add: loc_def)

lemma shape_reindex:
  "index (reindex p idx cols v) = idx" "columns (reindex p idx cols v) = cols"
  "length (data (reindex p idx cols v)) = length idx"
  "row \<in> set (data (reindex p idx cols v)) \<Longrightarrow> length row = length cols"
  by (auto simp: reindex_def tabulate_def)

lemma set_union_index: "set (union_index a b) = set a \<union> set b"
  by (simp add: union_index_def set_sort_labels)

lemma length_union_index: "length (union_index a b) = card (set a \<union> set b)"
  by (simp add: union_index_def length_sort_labels)


text \<open>
  C5. \<open>compare_segments\<close> builds both pivots with the same dimensions and bucketing and
  reindexes both onto the union of their row labels and the union of their column
  labels: the aligned frames have these labels, their shape is the number of united row
  labels by the number of united column labels, a cell whose two labels a pivot had
  keeps its value and every other cell is 0. For pivots with disjoint row labels (or
  disjoint column labels) every cell of either pivot appears with its own value against
  0 on the other side.
\<close>

theorem compare_aligns_on_union:
  assumes "create_pivot_table self df1 x_axis y_axis metric xb yb None None = Inr p1"
    and "create_pivot_table self df2 x_axis y_axis metric xb yb None None = Inr p2"
  shows "\<exists>res. compare_segments self df1 df2 x_axis y_axis metric xb yb = Inr res
          \<and> index (pivot1 res) = union_index (index p1) (index p2)
          \<and> index (pivot2 res) = union_index (index p1) (index p2)
          \<and> columns (pivot1 res) = union_index (columns p1) (columns p2)
          \<and> columns (pivot2 res) = union_index (columns p1) (columns p2)
          \<and> set (index (pivot1 res)) = set (index p1) \<union> set (index p2)
          \<and> set (columns (pivot1 res)) = set (columns p1) \<union> set (columns p2)
          \<and> length (data (pivot1 res)) = card (set (index p1) \<union> set (index p2))
          \<and> length (data (pivot2 res)) = card (set (index p1) \<union> set (index p2))
          \<and> (\<forall>row\<in>set (data (pivot1 res)) \<union> set (data (pivot2 res)).
                length row = card (set (columns p1) \<union> set (columns p2)))
          \<and> (\<forall>r\<in>set (index p1) \<union> set (index p2). \<forall>c\<in>set (columns p1) \<union> set (columns p2).
                loc (pivot1 res) r c
                  = (if r \<in> set (index p1) \<and> c \<in> set (columns p1) then loc p1 r c else Inr (Fin 0))
                \<and> loc (pivot2 res) r c
                  = (if r \<in> set (index p2) \<and> c \<in> set (columns p2) then loc p2 r c else Inr (Fin 0)))
          \<and> (set (index p1) \<inter> set (index p2) = {} \<or> set (columns p1) \<inter> set (columns p2) = {}
               \<longrightarrow> (\<forall>r\<in>set (index p1). \<forall>c\<in>set (columns p1).
                      loc (pivot1 res) r c = loc p1 r c \<and> loc (pivot2 res) r c = Inr (Fin 0))
                 \<and> (\<forall>r\<in>set (index p2). \<forall>c\<in>set (columns p2).
                      loc (pivot2 res) r c = loc p2 r c \<and> loc (pivot1 res) r c = Inr (Fin 0)))"
proof -
  let ?I = "union_index (index p1) (index p2)"
  let ?C = "union_index (columns p1) (columns p2)"
  let ?a = "reindex p1 ?I ?C (Fin 0)"
  let ?b = "reindex p2 ?I ?C (Fin 0)"
  obtain res where res: "compare_segments self df1 df2 x_axis y_axis metric xb yb = Inr res"
    "pivot1 res = ?a" "pivot2 res = ?b"
    using assms by (simp add: compare_segments_def bind_err_def Let_def)
  have rows: "\<forall>row\<in>set (data ?a) \<union> set (data ?b). length row = card (set (columns p1) \<union> set (columns p2))"
    using shape_reindex(4) length_union_index by auto
  have cells: "\<forall>r\<in>set (index p1) \<union> set (index p2). \<forall>c\<in>set (columns p1) \<union> set (columns p2).
                loc ?a r c
                  = (if r \<in> set (index p1) \<and> c \<in> set (columns p1) then loc p1 r c else Inr (Fin 0))
                \<and> loc ?b r c
                  = (if r \<in> set (index p2) \<and> c \<in> set (columns p2) then loc p2 r c else Inr (Fin 0))"
    by (simp add: loc_reindex set_union_index)
  have disj: "(\<forall>r\<in>set (index p1). \<forall>c\<in>set (columns p1).
                      loc ?a r c = loc p1 r c \<and> loc ?b r c = Inr (Fin 0))
                 \<and> (\<forall>r\<in>set (index p2). \<forall>c\<in>set (columns p2).
                      loc ?b r c = loc p2 r c \<and> loc ?a r c = Inr (Fin 0))"
    if "set (index p1) \<inter> set (index p2) = {} \<or> set (columns p1) \<inter> set (columns p2) = {}"
    using that by (auto simp: loc_reindex set_union_index)
  show ?thesis
    apply (rule exI [of _ res])
    unfolding res(2,3)
    using res(1) rows cells disj
    by (simp add: shape_reindex set_union_index length_union_index)
qed


theorem compare_aligns_on_union_witness:
  "create_pivot_table init two_cells ''country'' ''device_type'' ''Count'' None None None None
     = Inr \<lparr> index = [Str ''UK'', Str ''US''], columns = [Str ''Desktop'', Str ''Mobile''],
             data = [[Fin 1, Fin 0], [Fin 0, Fin 1]] \<rparr>
   \<and> create_pivot_table init one_cell ''country'' ''device_type'' ''Count'' None None None None
     = Inr \<lparr> index = [Str ''DE''], columns = [Str ''Tablet''], data = [[Fin 1]] \<rparr>
   \<and> set [Str ''UK'', Str ''US''] \<inter> set [Str ''DE''] = {}
   \<and> (\<exists>res. compare_segments init two_cells one_cell ''country'' ''device_type'' ''Count'' None None
               = Inr res
          \<and> index (pivot1 res) = [Str ''DE'', Str ''UK'', Str ''US'']
          \<and> columns (pivot1 res) = [Str ''Desktop'', Str ''Mobile'', Str ''Tablet'']
          \<and> length (data (pivot1 res)) = 3
          \<and> loc (pivot1 res) (Str ''US'') (Str ''Mobile'') = Inr (Fin 1)
          \<and> loc (pivot2 res) (Str ''US'') (Str ''Mobile'') = Inr (Fin 0)
          \<and> loc (pivot2 res) (Str ''DE'') (Str ''Tablet'') = Inr (Fin 1)
          \<and> loc (pivot1 res) (Str ''DE'') (Str ''Tablet'') = Inr (Fin 0))"
proof -
  let ?p1 = "\<lparr> index = [Str ''UK'', Str ''US''], columns = [Str ''Desktop'', Str ''Mobile''],
              data = [[Fin 1, Fin 0], [Fin 0, Fin 1]] \<rparr>"
  let ?p2 = "\<lparr> index = [Str ''DE''], columns = [Str ''Tablet''], data = [[Fin 1]] \<rparr>"
  have p1: "create_pivot_table init two_cells ''country'' ''device_type'' ''Count'' None None None None
            = Inr ?p1" by code_simp
  have p2: "create_pivot_table init one_cell ''country'' ''device_type'' ''Count'' None None None None
            = Inr ?p2" by code_simp
  have u: "union_index [Str ''UK'', Str ''US''] [Str ''DE''] = [Str ''DE'', Str ''UK'', Str ''US'']"
    "union_index [Str ''Desktop'', Str ''Mobile''] [Str ''Tablet'']
     = [Str ''Desktop'', Str ''Mobile'', Str ''Tablet'']" by code_simp+
  have l: "loc ?p1 (Str ''US'') (Str ''Mobile'') = Inr (Fin 1)"
    "loc ?p2 (Str ''DE'') (Str ''Tablet'') = Inr (Fin 1)" by (simp_all add: loc_def)
  have d: "set [Str ''UK'', Str ''US''] \<inter> set [Str ''DE''] = {}" by simp
  from compare_aligns_on_union [OF p1 p2] obtain res where
    r: "compare_segments init two_cells one_cell ''country'' ''device_type'' ''Count'' None None = Inr res"
      "index (pivot1 res) = union_index (index ?p1) (index ?p2)"
      "columns (pivot1 res) = union_index (columns ?p1) (columns ?p2)"
      "length (data (pivot1 res)) = card (set (index ?p1) \<union> set (index ?p2))"
      "set (index ?p1) \<inter> set (index ?p2) = {} \<or> set (columns ?p1) \<inter> set (columns ?p2) = {}
         \<longrightarrow> (\<forall>r\<in>set (index ?p1). \<forall>c\<in>set (columns ?p1).
                      loc (pivot1 res) r c = loc ?p1 r c \<and> loc (pivot2 res) r c = Inr (Fin 0))
                 \<and> (\<forall>r\<in>set (index ?p2). \<forall>c\<in>set (columns ?p2).
                      loc (pivot2 res) r c = loc ?p2 r c \<and> loc (pivot1 res) r c = Inr (Fin 0))"
    by blast
  from r(5) d l have c:
    "loc (pivot1 res) (Str ''US'') (Str ''Mobile'') = Inr (Fin 1)"
    "loc (pivot2 res) (Str ''US'') (Str ''Mobile'') = Inr (Fin 0)"
    "loc (pivot2 res) (Str ''DE'') (Str ''Tablet'') = Inr (Fin 1)"
    "loc (pivot1 res) (Str ''DE'') (Str ''Tablet'') = Inr (Fin 0)"
    by simp_all
  have "index (pivot1 res) = [Str ''DE'', Str ''UK'', Str ''US'']"
    "columns (pivot1 res) = [Str ''Desktop'', Str ''Mobile'', Str ''Tablet'']"
    "length (data (pivot1 res)) = 3"
    using r(2,3,4) u by simp_all
  with p1 p2 d r(1) c show ?thesis by blast
qed

subsection \<open>Retention Rate\<close>











subsection \<open>The labels and cells of a pivot\<close>












end
